theory Spec2Isabelle
  imports Complex_Main "HOL-Library.AList" "HOL-Library.Sublist"
begin

section \<open>Values shared by the model\<close>

text \<open>
  Python floats are modelled as \<^typ>\<open>real\<close>: comparison, subtraction and
  scaling are exact, rounding and NaN are outside the model. A
  \<^verbatim>\<open>datetime.utcnow()\<close> reading is a natural number handed to the
  operation that reads the clock. A Python dict is an association list in
  insertion order; \<^const>\<open>AList.update\<close> overwrites a present key in place and
  appends a new one, as item assignment does.
\<close>

type_synonym timestamp = nat

datatype py_error =
    ValueError string
  | AttributeError string
  | UnboundLocalError string
  | IndexError
  | AdapterError string
  | Retry py_error

text \<open>\<^verbatim>\<open>str(e)\<close> of an exception: the message it carries.\<close>

fun exc_str :: "py_error \<Rightarrow> string" where
  "exc_str (ValueError s) = s"
| "exc_str (AttributeError s) = s"
| "exc_str (UnboundLocalError s) = s"
| "exc_str IndexError = ''list index out of range''"
| "exc_str (AdapterError s) = s"
| "exc_str (Retry e) = exc_str e"

text \<open>\<^verbatim>\<open>d.update(other)\<close>: every item of \<open>other\<close> is assigned in turn.\<close>

definition dict_update :: "('k \<times> 'v) list \<Rightarrow> ('k \<times> 'v) list \<Rightarrow> ('k \<times> 'v) list" where
  "dict_update d other = foldl (\<lambda>acc kv. AList.update (fst kv) (snd kv) acc) d other"


section \<open>models/processing\_job.py\<close>

datatype ProcessingStage =
    UPLOADING
  | EXTRACTING_AUDIO
  | GENERATING_TRANSCRIPT
  | ANALYZING_CONTENT
  | GENERATING_CHAPTERS
  | FINALIZING
  | COMPLETE
  | ERROR

text \<open>The members of the enum, by name, in declaration order.\<close>

definition ProcessingStage_members :: "(string \<times> ProcessingStage) list" where
  "ProcessingStage_members =
     [(''UPLOADING'', UPLOADING),
      (''EXTRACTING_AUDIO'', EXTRACTING_AUDIO),
      (''GENERATING_TRANSCRIPT'', GENERATING_TRANSCRIPT),
      (''ANALYZING_CONTENT'', ANALYZING_CONTENT),
      (''GENERATING_CHAPTERS'', GENERATING_CHAPTERS),
      (''FINALIZING'', FINALIZING),
      (''COMPLETE'', COMPLETE),
      (''ERROR'', ERROR)]"

text \<open>
  \<^verbatim>\<open>ProcessingStage.NAME\<close>: attribute lookup on the enum class; a name that
  is no member raises AttributeError.
\<close>

definition ProcessingStage_getattr :: "string \<Rightarrow> py_error + ProcessingStage" where
  "ProcessingStage_getattr name =
     (case map_of ProcessingStage_members name of
        None \<Rightarrow> Inl (AttributeError name)
      | Some s \<Rightarrow> Inr s)"

fun stage_value :: "ProcessingStage \<Rightarrow> string" where
  "stage_value UPLOADING = ''uploading''"
| "stage_value EXTRACTING_AUDIO = ''extracting_audio''"
| "stage_value GENERATING_TRANSCRIPT = ''generating_transcript''"
| "stage_value ANALYZING_CONTENT = ''analyzing_content''"
| "stage_value GENERATING_CHAPTERS = ''generating_chapters''"
| "stage_value FINALIZING = ''finalizing''"
| "stage_value COMPLETE = ''complete''"
| "stage_value ERROR = ''error''"

text \<open>One entry of \<^verbatim>\<open>metadata['processing_errors']\<close>.\<close>

record error_entry =
  entry_timestamp :: timestamp
  entry_stage :: string
  entry_message :: string
  entry_details :: "string option"

text \<open>The JSON values the job stores in its metadata and configuration.\<close>

datatype json =
    JNull
  | JInt int
  | JNum real
  | JStr string
  | JErrors "error_entry list"

record ProcessingJob =
  job_id :: string
  video_id :: string
  status :: ProcessingStage
  progress :: real
  job_start_time :: "timestamp option"
  job_end_time :: "timestamp option"
  error_message :: "string option"
  error_details :: "string option"
  stage_progress :: "(string \<times> real) list option"
  metadata :: "(string \<times> json) list option"
  config :: "(string \<times> json) list option"
  task_id :: "string option"

text \<open>
  The dict comprehension used by the constructor and by the restart: one
  entry \<open>0.0\<close> for every stage other than COMPLETE and ERROR.
\<close>

definition initial_stage_progress :: "(string \<times> real) list" where
  "initial_stage_progress =
     map (\<lambda>p. (stage_value (snd p), 0))
       (filter (\<lambda>p. snd p \<notin> set [COMPLETE, ERROR]) ProcessingStage_members)"

definition initial_metadata :: "(string \<times> json) list" where
  "initial_metadata =
     [(''asr_duration'', JNull),
      (''transcript_length'', JNull),
      (''chapters_generated'', JNull),
      (''llm_inference_time'', JNull),
      (''model_used'', JNull),
      (''processing_errors'', JErrors [])]"

text \<open>
  \<^verbatim>\<open>ProcessingJob(video_id=..., config=...)\<close> followed by the column
  defaults (status UPLOADING, progress 0.0) the first save applies.
\<close>

definition ProcessingJob_init :: "string \<Rightarrow> string \<Rightarrow> (string \<times> json) list \<Rightarrow> ProcessingJob" where
  "ProcessingJob_init jid vid cfg =
     \<lparr> job_id = jid, video_id = vid, status = UPLOADING, progress = 0,
       job_start_time = None, job_end_time = None,
       error_message = None, error_details = None,
       stage_progress = Some initial_stage_progress,
       metadata = Some initial_metadata,
       config = Some cfg, task_id = None \<rparr>"

definition is_complete :: "ProcessingJob \<Rightarrow> bool" where
  "is_complete j = (status j \<in> set [COMPLETE, ERROR])"

text \<open>
  \<^verbatim>\<open>not d\<close> for an optional dict holds for None and for the empty dict;
  \<^verbatim>\<open>if not self.x: self.x = {}\<close> therefore leaves a non-empty dict alone
  and yields the empty dict otherwise.
\<close>

definition dict_or_empty :: "('k \<times> 'v) list option \<Rightarrow> ('k \<times> 'v) list" where
  "dict_or_empty d = (case d of None \<Rightarrow> [] | Some kvs \<Rightarrow> kvs)"

definition truthy_dict :: "('k \<times> 'v) list option \<Rightarrow> bool" where
  "truthy_dict d = (case d of None \<Rightarrow> False | Some kvs \<Rightarrow> kvs \<noteq> [])"

text \<open>
  \<^verbatim>\<open>update_progress(stage, progress, stage_progress, metadata)\<close>; \<open>now\<close> is
  the clock reading used if the end time gets stamped.
\<close>

definition update_progress ::
  "timestamp \<Rightarrow> ProcessingStage option \<Rightarrow> real option \<Rightarrow> (string \<times> real) list option \<Rightarrow>
   (string \<times> json) list option \<Rightarrow> ProcessingJob \<Rightarrow> ProcessingJob" where
  "update_progress now stage prog sp md j =
     (let j1 = (case stage of None \<Rightarrow> j | Some s \<Rightarrow> j\<lparr>status := s\<rparr>);
          j2 = (case prog of None \<Rightarrow> j1 | Some p \<Rightarrow> j1\<lparr>progress := min 100 (max 0 p)\<rparr>);
          j3 = (if truthy_dict sp
                then j2\<lparr>stage_progress :=
                        Some (dict_update (dict_or_empty (stage_progress j2)) (dict_or_empty sp))\<rparr>
                else j2);
          j4 = (if truthy_dict md
                then j3\<lparr>metadata :=
                        Some (dict_update (dict_or_empty (metadata j3)) (dict_or_empty md))\<rparr>
                else j3)
      in if progress j4 \<ge> 100 \<and> status j4 \<noteq> ERROR
         then (let j5 = j4\<lparr>status := COMPLETE\<rparr>
               in if job_end_time j5 = None then j5\<lparr>job_end_time := Some now\<rparr> else j5)
         else j4)"

text \<open>
  \<^verbatim>\<open>mark_error(error_message, error_details)\<close>. The method mutates the job
  as it goes, so the job is returned also when the method raises (second
  component \<open>Some e\<close>). The entry's stage is read from \<^verbatim>\<open>self.status\<close>
  after the assignment of ERROR. In the last statement,
  \<^verbatim>\<open>self.metadata['processing_errors'].append\<close> is resolved first: a value
  that is no list has no \<^verbatim>\<open>append\<close> and raises AttributeError. Only then
  is the argument built: the name \<^verbatim>\<open>datetime\<close> is local to the method and
  is bound only by the import inside \<^verbatim>\<open>if not self.end_time\<close>, so
  \<^verbatim>\<open>datetime.utcnow()\<close> raises UnboundLocalError when that branch was
  skipped.
\<close>

definition mark_error ::
  "timestamp \<Rightarrow> string \<Rightarrow> string option \<Rightarrow> ProcessingJob \<Rightarrow> ProcessingJob \<times> py_error option" where
  "mark_error now msg details j =
     (let j1 = j\<lparr>status := ERROR, error_message := Some msg, error_details := details\<rparr>;
          datetime_bound = (job_end_time j1 = None);
          j2 = (if datetime_bound then j1\<lparr>job_end_time := Some now\<rparr> else j1);
          md0 = dict_or_empty (metadata j2);
          md1 = (if map_of md0 ''processing_errors'' = None
                 then AList.update ''processing_errors'' (JErrors []) md0 else md0);
          j3 = j2\<lparr>metadata := Some md1\<rparr>
      in case map_of md1 ''processing_errors'' of
           Some (JErrors es) \<Rightarrow>
             (if \<not> datetime_bound then (j3, Some (UnboundLocalError ''datetime''))
              else (j3\<lparr>metadata := Some (AList.update ''processing_errors''
                        (JErrors (es @ [\<lparr> entry_timestamp = now,
                                          entry_stage = stage_value (status j3),
                                          entry_message = msg,
                                          entry_details = details \<rparr>])) md1)\<rparr>, None))
         | _ \<Rightarrow> (j3, Some (AttributeError ''append'')))"

text \<open>\<^verbatim>\<open>mark_complete(chapters_generated)\<close>.\<close>

definition mark_complete :: "timestamp \<Rightarrow> int option \<Rightarrow> ProcessingJob \<Rightarrow> ProcessingJob" where
  "mark_complete now chapters_generated j =
     (let j1 = j\<lparr>status := COMPLETE, progress := 100\<rparr>;
          j2 = (if job_end_time j1 = None then j1\<lparr>job_end_time := Some now\<rparr> else j1)
      in case chapters_generated of
           None \<Rightarrow> j2
         | Some n \<Rightarrow>
             (if truthy_dict (metadata j2)
              then j2\<lparr>metadata := Some (AList.update ''chapters_generated'' (JInt n)
                                          (dict_or_empty (metadata j2)))\<rparr>
              else j2))"


section \<open>ai/chapter\_processor.py: the progress wrappers\<close>

text \<open>
  The value \<^verbatim>\<open>adjusted_progress\<close> that the closures
  \<^verbatim>\<open>transcription_progress\<close> and \<^verbatim>\<open>chapter_progress\<close> compute and hand on.
\<close>

definition transcription_progress :: "real \<Rightarrow> real" where
  "transcription_progress p = (p / 100) * 50"

definition chapter_progress :: "real \<Rightarrow> real" where
  "chapter_progress p = 50 + (p / 100) * 35"

text \<open>The aggregation formula of a stage with global range \<open>[lower, upper]\<close>.\<close>

definition stage_to_global :: "real \<Rightarrow> real \<Rightarrow> real \<Rightarrow> real" where
  "stage_to_global lower upper local = lower + (local / 100) * (upper - lower)"


section \<open>ai/llm\_processor.py\<close>

text \<open>
  A candidate chapter: the dict with keys \<^verbatim>\<open>start_time\<close>, \<^verbatim>\<open>title\<close> and
  \<^verbatim>\<open>confidence\<close> that both parsers and the fallback build (all three keys
  are always present, so \<^verbatim>\<open>.get('confidence', 0)\<close> reads the stored value).
\<close>

record candidate =
  start_time :: real
  title :: string
  confidence :: real

text \<open>The decimal rendering of a non-negative integer in an f-string.\<close>

definition digit_char :: "nat \<Rightarrow> char" where
  "digit_char d = ''0123456789'' ! d"

function str_nat :: "nat \<Rightarrow> string" where
  "str_nat n = (if n < 10 then [digit_char n] else str_nat (n div 10) @ [digit_char (n mod 10)])"
  by pat_completeness auto
termination
  by (relation "measure id") auto

declare str_nat.simps [simp del]

text \<open>
  \<^verbatim>\<open>_create_fallback_chapters(num_chapters, min_chapter_length)\<close>;
  \<^verbatim>\<open>range(n)\<close> is empty for \<open>n \<le> 0\<close>.
\<close>

definition create_fallback_chapters :: "int \<Rightarrow> real \<Rightarrow> candidate list" where
  "create_fallback_chapters num_chapters min_chapter_length =
     map (\<lambda>i. \<lparr> start_time = real i * min_chapter_length,
                 title = ''Chapter '' @ str_nat (i + 1),
                 confidence = 0.5 \<rparr>)
       [0..<nat num_chapters]"

text \<open>
  \<^verbatim>\<open>sorted(xs, key=f, reverse=True)\<close>: descending by key, elements with
  equal keys in their original order.
\<close>

definition sorted_reverse :: "('a \<Rightarrow> real) \<Rightarrow> 'a list \<Rightarrow> 'a list" where
  "sorted_reverse f xs = rev (sort_key f (rev xs))"

text \<open>\<^verbatim>\<open>xs[-1]\<close>: IndexError on the empty list.\<close>

definition py_last :: "'a list \<Rightarrow> py_error + 'a" where
  "py_last xs = (if xs = [] then Inl IndexError else Inr (last xs))"

text \<open>
  The merge loop of \<^verbatim>\<open>_validate_and_process_chapters\<close> over
  \<^verbatim>\<open>enumerate(chapters)\<close>, with \<^verbatim>\<open>filtered_chapters\<close> as accumulator;
  \<^verbatim>\<open>filtered_chapters[-1] = chapter\<close> replaces the last element.
\<close>

fun merge_loop :: "real \<Rightarrow> candidate list \<Rightarrow> (nat \<times> candidate) list \<Rightarrow> py_error + candidate list" where
  "merge_loop min_chapter_length filtered_chapters [] = Inr filtered_chapters"
| "merge_loop min_chapter_length filtered_chapters ((i, chapter) # rest) =
     (if i = 0 then merge_loop min_chapter_length (filtered_chapters @ [chapter]) rest
      else (case py_last filtered_chapters of
              Inl e \<Rightarrow> Inl e
            | Inr prev \<Rightarrow>
                (if start_time chapter - start_time prev \<ge> min_chapter_length
                 then merge_loop min_chapter_length (filtered_chapters @ [chapter]) rest
                 else if confidence chapter > confidence prev
                 then merge_loop min_chapter_length (butlast filtered_chapters @ [chapter]) rest
                 else merge_loop min_chapter_length filtered_chapters rest)))"

definition merge_close_chapters :: "real \<Rightarrow> candidate list \<Rightarrow> py_error + candidate list" where
  "merge_close_chapters min_chapter_length chapters =
     merge_loop min_chapter_length [] (enumerate 0 chapters)"

definition introduction :: candidate where
  "introduction = \<lparr> start_time = 0, title = ''Introduction'', confidence = 0.8 \<rparr>"

text \<open>The cap: more than 15 chapters are cut to the 15 of highest confidence.\<close>

definition cap_chapters :: "candidate list \<Rightarrow> candidate list" where
  "cap_chapters filtered_chapters =
     (if length filtered_chapters > 15
      then sort_key start_time (take 15 (sorted_reverse confidence filtered_chapters))
      else filtered_chapters)"

text \<open>
  \<^verbatim>\<open>_validate_and_process_chapters(chapters, video_duration,
  min_chapter_length)\<close>.
\<close>

definition validate_and_process_chapters ::
  "candidate list \<Rightarrow> real \<Rightarrow> real \<Rightarrow> py_error + candidate list" where
  "validate_and_process_chapters chapters video_duration min_chapter_length =
     (if chapters = [] then Inr (create_fallback_chapters 5 min_chapter_length)
      else
        (case sort_key start_time chapters of
           [] \<Rightarrow> Inl IndexError
         | first # others \<Rightarrow>
             (let with_intro = (if start_time first > 0 then introduction # first # others
                                else first # others);
                  in_range = filter (\<lambda>ch. start_time ch < video_duration) with_intro
              in case merge_close_chapters min_chapter_length in_range of
                   Inl e \<Rightarrow> Inl e
                 | Inr filtered_chapters \<Rightarrow> Inr (cap_chapters filtered_chapters))))"

text \<open>
  One generation attempt: everything inside the \<^verbatim>\<open>try\<close> up to and
  including \<^verbatim>\<open>_parse_chapter_response\<close>, which catches every exception of
  its own. The attempt either raises or yields the parsed candidates
  (possibly none). The adapter samples, so the outcome depends on the attempt.
\<close>

datatype attempt_result = Raised py_error | Parsed "candidate list"

text \<open>The \<^verbatim>\<open>for attempt in range(max_retries)\<close> loop, from \<open>attempt\<close> on.\<close>

function retry_loop ::
  "(nat \<Rightarrow> attempt_result) \<Rightarrow> int \<Rightarrow> real \<Rightarrow> nat \<Rightarrow> nat \<Rightarrow> py_error + candidate list" where
  "retry_loop gen max_chapters min_chapter_length max_retries attempt =
     (if attempt < max_retries
      then (case gen attempt of
              Parsed chapters \<Rightarrow>
                (if chapters \<noteq> [] then Inr chapters
                 else retry_loop gen max_chapters min_chapter_length max_retries (Suc attempt))
            | Raised e \<Rightarrow>
                (if int attempt = int max_retries - 1 then Inl e
                 else retry_loop gen max_chapters min_chapter_length max_retries (Suc attempt)))
      else Inr (create_fallback_chapters max_chapters min_chapter_length))"
  by pat_completeness auto
termination
  by (relation "measure (\<lambda>(gen, mc, m, max_retries, attempt). max_retries - attempt)") auto

declare retry_loop.simps [simp del]

text \<open>\<^verbatim>\<open>_generate_with_retry\<close> as \<^verbatim>\<open>generate_chapters\<close> calls it: three attempts.\<close>

definition generate_with_retry ::
  "(nat \<Rightarrow> attempt_result) \<Rightarrow> int \<Rightarrow> real \<Rightarrow> py_error + candidate list" where
  "generate_with_retry gen max_chapters min_chapter_length =
     retry_loop gen max_chapters min_chapter_length 3 0"

text \<open>
  \<^verbatim>\<open>generate_chapters\<close> without a progress callback. \<open>load\<close> is the
  outcome of \<^verbatim>\<open>_get_model()\<close>: \<open>Some e\<close> when loading the model raises. The
  \<^verbatim>\<open>except\<close> clause logs and re-raises.
\<close>

definition generate_chapters ::
  "py_error option \<Rightarrow> (nat \<Rightarrow> attempt_result) \<Rightarrow> real \<Rightarrow> int \<Rightarrow> real \<Rightarrow>
   py_error + candidate list" where
  "generate_chapters load gen video_duration max_chapters min_chapter_length =
     (case load of
        Some e \<Rightarrow> Inl e
      | None \<Rightarrow>
          (case generate_with_retry gen max_chapters min_chapter_length of
             Inl e \<Rightarrow> Inl e
           | Inr chapters \<Rightarrow>
               validate_and_process_chapters chapters video_duration min_chapter_length))"

text \<open>
  The default of the \<^verbatim>\<open>max_chapters\<close> parameter in the signature of
  \<^verbatim>\<open>generate_chapters\<close>.
\<close>

definition default_max_chapters :: int where
  "default_max_chapters = 15"

text \<open>Two adapters used as concrete inputs.\<close>

definition always_raises :: "nat \<Rightarrow> attempt_result" where
  "always_raises attempt = Raised (AdapterError ''generation failed'')"

definition no_candidates :: "nat \<Rightarrow> attempt_result" where
  "no_candidates attempt = Parsed []"


section \<open>ai/chapter\_processor.py: saving chapters\<close>

record Chapter =
  ch_video_id :: string
  ch_title :: string
  ch_start_time :: real
  ch_end_time :: "real option"
  ch_confidence :: real
  is_ai_generated :: bool
  ch_order :: nat

text \<open>
  The chapter table is the list of rows in insertion order; a row is
  identified by its position. \<^verbatim>\<open>Chapter.update_order\<close> ranks the rows of
  one video by start time (rows with equal start times in insertion order)
  and writes the 1-based rank into each.
\<close>

definition update_order :: "string \<Rightarrow> Chapter list \<Rightarrow> Chapter list" where
  "update_order vid table =
     (let rows = filter (\<lambda>pc. ch_video_id (snd pc) = vid) (enumerate 0 table);
          ranked = enumerate 1 (sort_key (\<lambda>pc. ch_start_time (snd pc)) rows)
      in foldl (\<lambda>t rpc. t[fst (snd rpc) := (snd (snd rpc))\<lparr>ch_order := fst rpc\<rparr>]) table ranked)"

text \<open>The row \<^verbatim>\<open>_save_chapters\<close> builds for index \<open>i\<close> of \<^verbatim>\<open>chapters\<close>.\<close>

definition chapter_row :: "string \<Rightarrow> candidate list \<Rightarrow> nat \<Rightarrow> Chapter" where
  "chapter_row vid chapters i =
     \<lparr> ch_video_id = vid,
       ch_title = title (chapters ! i),
       ch_start_time = start_time (chapters ! i),
       ch_end_time = (if int i < int (length chapters) - 1
                      then Some (start_time (chapters ! (i + 1))) else None),
       ch_confidence = confidence (chapters ! i),
       is_ai_generated = True,
       ch_order = i + 1 \<rparr>"

text \<open>
  \<^verbatim>\<open>_save_chapters(chapters, video_id)\<close> on a chapter table: the rows are
  appended, then \<^verbatim>\<open>update_order\<close> runs once per saved row. The result is
  the new table and the saved rows as they stand at the end.
\<close>

definition save_chapters :: "candidate list \<Rightarrow> string \<Rightarrow> Chapter list \<Rightarrow> Chapter list \<times> Chapter list" where
  "save_chapters chapters vid table =
     (let appended = table @ map (chapter_row vid chapters) [0..<length chapters];
          reordered = foldl (\<lambda>t i. update_order vid t) appended [0..<length chapters]
      in (reordered, drop (length table) reordered))"


section \<open>The merge pass as the design describes it\<close>

text \<open>
  Written from the description of the merge pass, independently of the loop
  above: the kept candidates are held most recent first. The first candidate
  is kept unconditionally; a later one is kept when its gap to the last kept
  start time is at least \<open>m\<close>, replaces the last kept one when the gap is
  smaller and its confidence is strictly greater, and is discarded otherwise.
\<close>

fun spec_merge_step :: "real \<Rightarrow> candidate list \<Rightarrow> candidate \<Rightarrow> candidate list" where
  "spec_merge_step m [] c = [c]"
| "spec_merge_step m (k # ks) c =
     (if start_time c - start_time k \<ge> m then c # k # ks
      else if confidence c > confidence k then c # ks
      else k # ks)"

definition spec_merge :: "real \<Rightarrow> candidate list \<Rightarrow> candidate list" where
  "spec_merge m cs = rev (foldl (spec_merge_step m) [] cs)"

text \<open>The candidates of the end-to-end scenario and of a two-candidate input.\<close>

definition scenario_candidates :: "candidate list" where
  "scenario_candidates =
     [\<lparr> start_time = 0, title = ''Intro'', confidence = 0.9 \<rparr>,
      \<lparr> start_time = 300, title = ''Body'', confidence = 0.6 \<rparr>,
      \<lparr> start_time = 320, title = ''Body2'', confidence = 0.95 \<rparr>,
      \<lparr> start_time = 2700, title = ''Wrap'', confidence = 0.85 \<rparr>]"

definition scenario_validated :: "candidate list" where
  "scenario_validated =
     [\<lparr> start_time = 0, title = ''Intro'', confidence = 0.9 \<rparr>,
      \<lparr> start_time = 320, title = ''Body2'', confidence = 0.95 \<rparr>,
      \<lparr> start_time = 2700, title = ''Wrap'', confidence = 0.85 \<rparr>]"

definition scenario_rows :: "Chapter list" where
  "scenario_rows =
     [\<lparr> ch_video_id = ''video-1'', ch_title = ''Intro'', ch_start_time = 0,
        ch_end_time = Some 320, ch_confidence = 0.9, is_ai_generated = True, ch_order = 1 \<rparr>,
      \<lparr> ch_video_id = ''video-1'', ch_title = ''Body2'', ch_start_time = 320,
        ch_end_time = Some 2700, ch_confidence = 0.95, is_ai_generated = True, ch_order = 2 \<rparr>,
      \<lparr> ch_video_id = ''video-1'', ch_title = ''Wrap'', ch_start_time = 2700,
        ch_end_time = None, ch_confidence = 0.85, is_ai_generated = True, ch_order = 3 \<rparr>]"

definition close_pair :: "candidate list" where
  "close_pair =
     [\<lparr> start_time = 0, title = ''Intro'', confidence = 0.5 \<rparr>,
      \<lparr> start_time = 10, title = ''Topic'', confidence = 0.9 \<rparr>]"


section \<open>ai/processing\_pipeline.py\<close>

text \<open>
  The persistence layer, the task queue and the notification sink as one
  state: the committed video and job rows, the submitted tasks
  (task id, video id, job id) and the emitted events (kind, job id). Fresh
  identifiers (the job's uuid, the queue's task id) are handed in by the
  caller of an operation. Commits, queue submissions and notifications
  themselves do not fail in this model.
\<close>

record Video =
  video_ident :: string
  duration :: "real option"
  processing_status :: string

record db =
  videos :: "Video list"
  jobs :: "ProcessingJob list"
  submitted :: "(string \<times> string \<times> string) list"
  notified :: "(string \<times> string) list"

definition Video_get_by_id :: "string \<Rightarrow> db \<Rightarrow> Video option" where
  "Video_get_by_id vid d = find (\<lambda>v. video_ident v = vid) (videos d)"

definition ProcessingJob_get_by_id :: "string \<Rightarrow> db \<Rightarrow> ProcessingJob option" where
  "ProcessingJob_get_by_id jid d = find (\<lambda>j. job_id j = jid) (jobs d)"

text \<open>\<^verbatim>\<open>job.save()\<close>: the row with the job's id is replaced, or the job is added.\<close>

definition save_job :: "ProcessingJob \<Rightarrow> db \<Rightarrow> db" where
  "save_job j d =
     (if find (\<lambda>x. job_id x = job_id j) (jobs d) = None
      then d\<lparr>jobs := jobs d @ [j]\<rparr>
      else d\<lparr>jobs := map (\<lambda>x. if job_id x = job_id j then j else x) (jobs d)\<rparr>)"

text \<open>
  \<^verbatim>\<open>video = Video.get_by_id(id); if video: video.processing_status = s;
  video.save()\<close>.
\<close>

definition set_video_status :: "string \<Rightarrow> string \<Rightarrow> db \<Rightarrow> db" where
  "set_video_status vid s d =
     d\<lparr>videos := map (\<lambda>v. if video_ident v = vid then v\<lparr>processing_status := s\<rparr> else v)
                    (videos d)\<rparr>"

text \<open>\<^verbatim>\<open>notify_job_update(job)\<close>: the event kind follows the job's stage.\<close>

definition notify_job_update :: "ProcessingJob \<Rightarrow> db \<Rightarrow> db" where
  "notify_job_update j d =
     d\<lparr>notified := notified d @
        [(if status j = COMPLETE then ''job_complete''
          else if stage_value (status j) = ''error'' then ''job_error''
          else ''job_progress'', job_id j)]\<rparr>"

definition notify_stage_change :: "ProcessingJob \<Rightarrow> db \<Rightarrow> db" where
  "notify_stage_change j d = d\<lparr>notified := notified d @ [(''job_stage_change'', job_id j)]\<rparr>"

text \<open>\<^verbatim>\<open>process_video_task.delay(video_id, job_id, options)\<close>.\<close>

definition submit_task :: "string \<Rightarrow> string \<Rightarrow> string \<Rightarrow> db \<Rightarrow> db" where
  "submit_task task vid jid d = d\<lparr>submitted := submitted d @ [(task, vid, jid)]\<rparr>"

text \<open>
  The names the class \<^verbatim>\<open>ProcessingJob\<close> and its base \<^verbatim>\<open>BaseModel\<close> define:
  columns, properties, methods and class methods. Looking up any other name
  on the class raises AttributeError.
\<close>

definition ProcessingJob_attributes :: "string list" where
  "ProcessingJob_attributes =
     [''id'', ''created_at'', ''updated_at'', ''to_dict'', ''save'', ''delete'',
      ''get_by_id'', ''get_all'',
      ''video_id'', ''status'', ''progress'', ''start_time'', ''end_time'',
      ''estimated_time_remaining'', ''error_message'', ''error_details'',
      ''stage_progress'', ''metadata'', ''config'',
      ''is_complete'', ''is_processing'', ''time_elapsed'', ''current_stage_description'',
      ''update_progress'', ''mark_error'', ''mark_complete'',
      ''get_active_jobs'', ''get_by_video'', ''get_latest_by_video'', ''get_by_status'',
      ''get_progress_percentage'', ''estimate_remaining_time'']"

definition ProcessingJob_getattr :: "string \<Rightarrow> py_error + unit" where
  "ProcessingJob_getattr name =
     (if name \<in> set ProcessingJob_attributes then Inr () else Inl (AttributeError name))"

text \<open>\<^verbatim>\<open>ProcessingJob.get_active_jobs()\<close>: the jobs that are neither COMPLETE nor ERROR.\<close>

definition get_active_jobs :: "db \<Rightarrow> ProcessingJob list" where
  "get_active_jobs d = filter (\<lambda>j. status j \<notin> set [COMPLETE, ERROR]) (jobs d)"

text \<open>
  Modelled from the spec: \<^verbatim>\<open>ProcessingJob.get_active_job_for_video\<close>, which
  \<^verbatim>\<open>start_processing\<close> calls and no file of the repository defines. The
  design says: look up any existing non-terminal job for the video.
\<close>

definition get_active_job_for_video :: "string \<Rightarrow> db \<Rightarrow> ProcessingJob option" where
  "get_active_job_for_video vid d = find (\<lambda>j. video_id j = vid) (get_active_jobs d)"

text \<open>
  \<^verbatim>\<open>start_processing(video_id, processing_options)\<close>. The class attribute
  \<^verbatim>\<open>get_active_job_for_video\<close> is looked up on \<^verbatim>\<open>ProcessingJob\<close> as the
  class is written; the \<^verbatim>\<open>except\<close> clause logs and re-raises. The time
  estimate of the result is not modelled.
\<close>

definition start_processing ::
  "string \<Rightarrow> string \<Rightarrow> string \<Rightarrow> (string \<times> json) list option \<Rightarrow> db \<Rightarrow>
   db \<times> (py_error + (string \<times> json) list)" where
  "start_processing new_job_id new_task_id vid processing_options d =
     (case Video_get_by_id vid d of
        None \<Rightarrow> (d, Inl (ValueError (''Video '' @ vid @ '' not found'')))
      | Some video \<Rightarrow>
          (case ProcessingJob_getattr ''get_active_job_for_video'' of
             Inl e \<Rightarrow> (d, Inl e)
           | Inr u \<Rightarrow>
               (case get_active_job_for_video vid d of
                  Some existing_job \<Rightarrow>
                    (d, Inr [(''job_id'', JStr (job_id existing_job)),
                             (''status'', JStr ''already_processing''),
                             (''message'', JStr ''Video is already being processed'')])
                | None \<Rightarrow>
                    (let job = ProcessingJob_init new_job_id vid (dict_or_empty processing_options);
                         d1 = save_job job d;
                         d2 = set_video_status vid ''processing'' d1;
                         d3 = submit_task new_task_id vid (job_id job) d2;
                         d4 = save_job (job\<lparr>task_id := Some new_task_id\<rparr>) d3
                     in (d4, Inr [(''job_id'', JStr (job_id job)),
                                  (''task_id'', JStr new_task_id),
                                  (''status'', JStr ''started''),
                                  (''video_id'', JStr vid)])))))"

text \<open>The state reset of \<^verbatim>\<open>restart_job\<close>, up to its first \<^verbatim>\<open>job.save()\<close>.\<close>

definition reset_job_state :: "timestamp \<Rightarrow> ProcessingJob \<Rightarrow> ProcessingJob" where
  "reset_job_state now job =
     job\<lparr>status := UPLOADING, progress := 0, error_message := None, error_details := None,
         job_end_time := None, job_start_time := Some now, task_id := None,
         stage_progress := Some initial_stage_progress\<rparr>"

text \<open>\<^verbatim>\<open>restart_job(job_id)\<close>.\<close>

definition restart_job ::
  "timestamp \<Rightarrow> string \<Rightarrow> string \<Rightarrow> db \<Rightarrow> db \<times> (py_error + (string \<times> json) list)" where
  "restart_job now new_task_id jid d =
     (case ProcessingJob_get_by_id jid d of
        None \<Rightarrow> (d, Inl (ValueError (''Job '' @ jid @ '' not found'')))
      | Some job \<Rightarrow>
          (if stage_value (status job) \<noteq> ''error''
           then (d, Inl (ValueError ''Can only restart failed jobs''))
           else
             (let job1 = reset_job_state now job;
                  d1 = save_job job1 d;
                  d2 = set_video_status (video_id job1) ''processing'' d1;
                  d3 = submit_task new_task_id (video_id job1) (job_id job1) d2;
                  job2 = job1\<lparr>task_id := Some new_task_id\<rparr>;
                  d4 = save_job job2 d3;
                  d5 = notify_job_update job2 d4
              in (d5, Inr [(''job_id'', JStr jid),
                           (''task_id'', JStr new_task_id),
                           (''status'', JStr ''restarted''),
                           (''message'', JStr ''Job restarted successfully'')]))))"

text \<open>
  The steps of \<^verbatim>\<open>process_video_task\<close> that a run went through, in order.
\<close>

datatype task_step = StageSaved | ProcessVideoCalled | VideoCompleted | ErrorHandlerEntered

text \<open>
  The \<^verbatim>\<open>try\<close> block of \<^verbatim>\<open>process_video_task\<close>. \<open>proc\<close> stands for
  \<^verbatim>\<open>ChapterProcessor().process_video(...)\<close> with its progress callback
  (transcription, chapter generation, saving): it transforms the state and
  returns or raises. The block yields the state, the local variable
  \<^verbatim>\<open>job\<close>, the steps taken and the outcome.
\<close>

definition task_body ::
  "(db \<Rightarrow> db \<times> (py_error + (string \<times> json) list)) \<Rightarrow> string \<Rightarrow> string \<Rightarrow> db \<Rightarrow>
   db \<times> ProcessingJob option \<times> task_step list \<times> (py_error + (string \<times> json) list)" where
  "task_body proc vid jid d =
     (case ProcessingJob_get_by_id jid d of
        None \<Rightarrow> (d, None, [], Inl (ValueError (''Job '' @ jid @ '' not found'')))
      | Some job \<Rightarrow>
          (case ProcessingStage_getattr ''PROCESSING'' of
             Inl e \<Rightarrow> (d, Some job, [], Inl e)
           | Inr s \<Rightarrow>
               (let job1 = job\<lparr>status := s\<rparr>;
                    d1 = notify_stage_change job1 (save_job job1 d);
                    pr = proc d1;
                    job2 = (case ProcessingJob_get_by_id jid (fst pr) of
                              None \<Rightarrow> job1 | Some j \<Rightarrow> j)
                in case snd pr of
                     Inl e \<Rightarrow> (fst pr, Some job2, [StageSaved, ProcessVideoCalled], Inl e)
                   | Inr result \<Rightarrow>
                       (set_video_status vid ''completed'' (fst pr), Some job2,
                        [StageSaved, ProcessVideoCalled, VideoCompleted], Inr result))))"

text \<open>
  \<^verbatim>\<open>process_video_task(video_id, job_id, processing_options)\<close>: the
  \<^verbatim>\<open>try\<close> block and its \<^verbatim>\<open>except Exception\<close> handler. The handler marks
  the job failed (an exception of \<^verbatim>\<open>mark_error\<close> itself escapes the
  handler), saves it, marks the video failed, notifies, and raises the
  queue's retry request.
\<close>

definition process_video_task ::
  "timestamp \<Rightarrow> (db \<Rightarrow> db \<times> (py_error + (string \<times> json) list)) \<Rightarrow> string \<Rightarrow> string \<Rightarrow> db \<Rightarrow>
   db \<times> task_step list \<times> (py_error + (string \<times> json) list)" where
  "process_video_task now proc vid jid d =
     (case task_body proc vid jid d of
        (d1, job, steps, Inr result) \<Rightarrow> (d1, steps, Inr result)
      | (d1, None, steps, Inl e) \<Rightarrow> (d1, steps @ [ErrorHandlerEntered], Inl (Retry e))
      | (d1, Some j, steps, Inl e) \<Rightarrow>
          (case mark_error now (''Processing failed: '' @ exc_str e) (Some (exc_str e)) j of
             (j1, Some e1) \<Rightarrow> (d1, steps @ [ErrorHandlerEntered], Inl e1)
           | (j1, None) \<Rightarrow>
               (notify_job_update j1 (set_video_status vid ''failed'' (save_job j1 d1)),
                steps @ [ErrorHandlerEntered], Inl (Retry e))))"

text \<open>A processing step that changes nothing and returns an empty result.\<close>

definition proc_returns :: "db \<Rightarrow> db \<times> (py_error + (string \<times> json) list)" where
  "proc_returns d = (d, Inr [])"

text \<open>Concrete states: a video with one job in progress, and with one failed job.\<close>

definition busy_db :: db where
  "busy_db =
     \<lparr> videos = [\<lparr> video_ident = ''video-1'', duration = Some 3600,
                  processing_status = ''processing'' \<rparr>],
       jobs = [(ProcessingJob_init ''job-1'' ''video-1'' [])
                 \<lparr>status := GENERATING_TRANSCRIPT, progress := 20,
                  task_id := Some ''task-1''\<rparr>],
       submitted = [(''task-1'', ''video-1'', ''job-1'')],
       notified = [] \<rparr>"

definition failed_job :: ProcessingJob where
  "failed_job =
     (ProcessingJob_init ''job-1'' ''video-1'' [])
       \<lparr>status := ERROR, progress := 20, job_start_time := Some 1, job_end_time := Some 5,
        error_message := Some ''Processing failed: boom'', error_details := Some ''boom'',
        task_id := Some ''task-1''\<rparr>"

definition failed_db :: db where
  "failed_db =
     \<lparr> videos = [\<lparr> video_ident = ''video-1'', duration = Some 3600,
                  processing_status = ''failed'' \<rparr>],
       jobs = [failed_job],
       submitted = [(''task-1'', ''video-1'', ''job-1'')],
       notified = [] \<rparr>"


section \<open>Stage progress aggregation\<close>

text \<open>
  Claim C8. The two wrappers are the aggregation formula for the ranges
  [0,50] and [50,85]; each is monotonically non-decreasing in the local
  progress, and a local progress in [0,100] is mapped into [0,50] by the
  transcription wrapper and into [50,85] by the chapter-generation wrapper.
\<close>

theorem stage_progress_monotone_in_range:
  "transcription_progress p = stage_to_global 0 50 p \<and>
   chapter_progress p = stage_to_global 50 85 p \<and>
   (p \<le> q \<longrightarrow> transcription_progress p \<le> transcription_progress q \<and>
              chapter_progress p \<le> chapter_progress q) \<and>
   (0 \<le> p \<and> p \<le> 100 \<longrightarrow>
      0 \<le> transcription_progress p \<and> transcription_progress p \<le> 50 \<and>
      50 \<le> chapter_progress p \<and> chapter_progress p \<le> 85)"
  by (simp add: transcription_progress_def chapter_progress_def stage_to_global_def)

theorem stage_progress_monotone_in_range_witness:
  "(40::real) \<le> 80 \<and> (0::real) \<le> 40 \<and> (40::real) \<le> 100 \<and>
   transcription_progress 40 = 20 \<and> transcription_progress 80 = 40 \<and>
   chapter_progress 40 = 64 \<and> chapter_progress 80 = 78 \<and>
   transcription_progress 40 \<le> transcription_progress 80 \<and>
   chapter_progress 40 \<le> chapter_progress 80 \<and>
   0 \<le> transcription_progress 40 \<and> transcription_progress 40 \<le> 50 \<and>
   50 \<le> chapter_progress 40 \<and> chapter_progress 40 \<le> 85"
  using stage_progress_monotone_in_range [of 40 80]
  by (simp add: transcription_progress_def chapter_progress_def)


section \<open>Job state machine\<close>

lemma update_progress_progress:
  "progress (update_progress now stage (Some p) sp md j) = min 100 (max 0 p)"
  unfolding update_progress_def Let_def
  by (cases stage)
     (simp_all del: min_less_iff_conj max_less_iff_conj min.bounded_iff max.bounded_iff)

lemma update_progress_status:
  "status (update_progress now stage (Some p) sp md j) =
     (if min 100 (max 0 p) \<ge> 100 \<and> (case stage of None \<Rightarrow> status j | Some s \<Rightarrow> s) \<noteq> ERROR
      then COMPLETE else (case stage of None \<Rightarrow> status j | Some s \<Rightarrow> s))"
  unfolding update_progress_def Let_def
  by (cases stage)
     (simp_all del: min_less_iff_conj max_less_iff_conj min.bounded_iff max.bounded_iff)

lemma update_progress_end_time:
  "job_end_time (update_progress now stage (Some p) sp md j) =
     (if min 100 (max 0 p) \<ge> 100 \<and> (case stage of None \<Rightarrow> status j | Some s \<Rightarrow> s) \<noteq> ERROR
      then Some (case job_end_time j of None \<Rightarrow> now | Some t \<Rightarrow> t) else job_end_time j)"
  unfolding update_progress_def Let_def
  by (cases stage; cases "job_end_time j")
     (simp_all del: min_less_iff_conj max_less_iff_conj min.bounded_iff max.bounded_iff)

text \<open>
  Claim C7. After an \<^verbatim>\<open>update_progress\<close> call that supplies a progress
  value \<open>p\<close>, the stored progress is \<open>p\<close> clamped, \<open>min 100 (max 0 p)\<close>, and
  so lies in [0,100]. Whenever the stored progress is at least 100 and the
  stage in force after the optional stage assignment is not ERROR, the stage
  is COMPLETE and the end time is set: to the clock reading if it was unset,
  to its previous value otherwise. In every other case the stage is the one
  in force after the optional stage assignment and the end time is untouched.
\<close>

theorem update_progress_clamps_and_completes:
  "progress (update_progress now stage (Some p) sp md j) = min 100 (max 0 p) \<and>
   (p < 0 \<longrightarrow> progress (update_progress now stage (Some p) sp md j) = 0) \<and>
   (0 \<le> p \<and> p \<le> 100 \<longrightarrow> progress (update_progress now stage (Some p) sp md j) = p) \<and>
   (100 < p \<longrightarrow> progress (update_progress now stage (Some p) sp md j) = 100) \<and>
   0 \<le> progress (update_progress now stage (Some p) sp md j) \<and>
   progress (update_progress now stage (Some p) sp md j) \<le> 100 \<and>
   (progress (update_progress now stage (Some p) sp md j) \<ge> 100 \<and>
    (case stage of None \<Rightarrow> status j | Some s \<Rightarrow> s) \<noteq> ERROR \<longrightarrow>
      status (update_progress now stage (Some p) sp md j) = COMPLETE \<and>
      job_end_time (update_progress now stage (Some p) sp md j) =
        Some (case job_end_time j of None \<Rightarrow> now | Some t \<Rightarrow> t)) \<and>
   (\<not> (progress (update_progress now stage (Some p) sp md j) \<ge> 100 \<and>
       (case stage of None \<Rightarrow> status j | Some s \<Rightarrow> s) \<noteq> ERROR) \<longrightarrow>
      status (update_progress now stage (Some p) sp md j) =
        (case stage of None \<Rightarrow> status j | Some s \<Rightarrow> s) \<and>
      job_end_time (update_progress now stage (Some p) sp md j) = job_end_time j)"
  unfolding update_progress_progress update_progress_status update_progress_end_time
  by (simp add: min_def max_def)

theorem update_progress_clamps_and_completes_witness:
  "progress (update_progress 42 None (Some 150) None None
      (ProcessingJob_init ''job-1'' ''video-1'' [])) = 100 \<and>
   status (ProcessingJob_init ''job-1'' ''video-1'' []) = UPLOADING \<and>
   job_end_time (ProcessingJob_init ''job-1'' ''video-1'' []) = None \<and>
   status (update_progress 42 None (Some 150) None None
      (ProcessingJob_init ''job-1'' ''video-1'' [])) = COMPLETE \<and>
   job_end_time (update_progress 42 None (Some 150) None None
      (ProcessingJob_init ''job-1'' ''video-1'' [])) = Some 42 \<and>
   progress (update_progress 42 None (Some (- 5)) None None
      (ProcessingJob_init ''job-1'' ''video-1'' [])) = 0 \<and>
   status (update_progress 42 None (Some (- 5)) None None
      (ProcessingJob_init ''job-1'' ''video-1'' [])) = UPLOADING \<and>
   job_end_time (update_progress 42 None (Some (- 5)) None None
      (ProcessingJob_init ''job-1'' ''video-1'' [])) = None \<and>
   progress (update_progress 42 (Some FINALIZING) (Some 37.5) None None
      (ProcessingJob_init ''job-1'' ''video-1'' [])) = 37.5 \<and>
   status (update_progress 42 (Some FINALIZING) (Some 37.5) None None
      (ProcessingJob_init ''job-1'' ''video-1'' [])) = FINALIZING \<and>
   progress (update_progress 42 (Some ERROR) (Some 100) None None
      (ProcessingJob_init ''job-1'' ''video-1'' [])) = 100 \<and>
   status (update_progress 42 (Some ERROR) (Some 100) None None
      (ProcessingJob_init ''job-1'' ''video-1'' [])) = ERROR \<and>
   job_end_time (update_progress 42 (Some ERROR) (Some 100) None None
      (ProcessingJob_init ''job-1'' ''video-1'' [])) = None"
proof -
  have s: "status (ProcessingJob_init ''job-1'' ''video-1'' []) = UPLOADING"
    and e: "job_end_time (ProcessingJob_init ''job-1'' ''video-1'' []) = None"
    by (simp_all add: ProcessingJob_init_def)
  show ?thesis
    using s e
      update_progress_clamps_and_completes
        [of 42 None 150 None None "ProcessingJob_init ''job-1'' ''video-1'' []"]
      update_progress_clamps_and_completes
        [of 42 None "- 5" None None "ProcessingJob_init ''job-1'' ''video-1'' []"]
      update_progress_clamps_and_completes
        [of 42 "Some FINALIZING" "37.5" None None "ProcessingJob_init ''job-1'' ''video-1'' []"]
      update_progress_clamps_and_completes
        [of 42 "Some ERROR" 100 None None "ProcessingJob_init ''job-1'' ''video-1'' []"]
    by simp
qed

text \<open>
  Claim C6, evaluated on the code. A job in GENERATING\_TRANSCRIPT fails
  with message "boom": the call returns normally, but the history entry it
  appends records the stage "error", because \<^verbatim>\<open>self.status\<close> is overwritten
  before the entry reads it. A second call on the resulting job, whose end
  time is now set, raises UnboundLocalError: it replaces the stored message
  and details and appends nothing. For every job, the first holds whenever
  the end time is unset and the metadata is as the constructor left it. For
  every job whose end time is set the call raises and appends nothing:
  UnboundLocalError when \<^verbatim>\<open>processing_errors\<close> is absent or a list,
  AttributeError when it holds any other value.
\<close>

theorem mark_error_history_entry:
  "mark_error 7 ''boom'' None
      ((ProcessingJob_init ''job-1'' ''video-1'' [])\<lparr>status := GENERATING_TRANSCRIPT\<rparr>) =
     ((ProcessingJob_init ''job-1'' ''video-1'' [])
        \<lparr>status := ERROR, job_end_time := Some 7, error_message := Some ''boom'',
         metadata := Some (AList.update ''processing_errors''
           (JErrors [\<lparr> entry_timestamp = 7, entry_stage = ''error'',
                      entry_message = ''boom'', entry_details = None \<rparr>]) initial_metadata)\<rparr>,
      None) \<and>
   stage_value GENERATING_TRANSCRIPT \<noteq> ''error'' \<and>
   mark_error 9 ''again'' (Some ''details'')
      ((ProcessingJob_init ''job-1'' ''video-1'' [])
        \<lparr>status := ERROR, job_end_time := Some 7, error_message := Some ''boom'',
         metadata := Some (AList.update ''processing_errors''
           (JErrors [\<lparr> entry_timestamp = 7, entry_stage = ''error'',
                      entry_message = ''boom'', entry_details = None \<rparr>]) initial_metadata)\<rparr>) =
     ((ProcessingJob_init ''job-1'' ''video-1'' [])
        \<lparr>status := ERROR, job_end_time := Some 7, error_message := Some ''again'',
         error_details := Some ''details'',
         metadata := Some (AList.update ''processing_errors''
           (JErrors [\<lparr> entry_timestamp = 7, entry_stage = ''error'',
                      entry_message = ''boom'', entry_details = None \<rparr>]) initial_metadata)\<rparr>,
      Some (UnboundLocalError ''datetime'')) \<and>
   map_of (dict_or_empty (metadata (fst (mark_error now msg details
      (j\<lparr>job_end_time := None, metadata := Some initial_metadata\<rparr>))))) ''processing_errors'' =
     Some (JErrors [\<lparr> entry_timestamp = now, entry_stage = ''error'',
                      entry_message = msg, entry_details = details \<rparr>]) \<and>
   mark_error now msg details (j\<lparr>job_end_time := Some t\<rparr>) =
     (j\<lparr>job_end_time := Some t, status := ERROR, error_message := Some msg,
        error_details := details,
        metadata := Some (if map_of (dict_or_empty (metadata j)) ''processing_errors'' = None
                          then AList.update ''processing_errors'' (JErrors [])
                                 (dict_or_empty (metadata j))
                          else dict_or_empty (metadata j))\<rparr>,
      Some (case map_of (dict_or_empty (metadata j)) ''processing_errors'' of
              None \<Rightarrow> UnboundLocalError ''datetime''
            | Some (JErrors es) \<Rightarrow> UnboundLocalError ''datetime''
            | Some other \<Rightarrow> AttributeError ''append''))"
proof -
  have a: "mark_error 7 ''boom'' None
      ((ProcessingJob_init ''job-1'' ''video-1'' [])\<lparr>status := GENERATING_TRANSCRIPT\<rparr>) =
     ((ProcessingJob_init ''job-1'' ''video-1'' [])
        \<lparr>status := ERROR, job_end_time := Some 7, error_message := Some ''boom'',
         metadata := Some (AList.update ''processing_errors''
           (JErrors [\<lparr> entry_timestamp = 7, entry_stage = ''error'',
                      entry_message = ''boom'', entry_details = None \<rparr>]) initial_metadata)\<rparr>,
      None)"
    by (simp add: mark_error_def ProcessingJob_init_def initial_metadata_def
          dict_or_empty_def Let_def)
  have b: "mark_error 9 ''again'' (Some ''details'')
      ((ProcessingJob_init ''job-1'' ''video-1'' [])
        \<lparr>status := ERROR, job_end_time := Some 7, error_message := Some ''boom'',
         metadata := Some (AList.update ''processing_errors''
           (JErrors [\<lparr> entry_timestamp = 7, entry_stage = ''error'',
                      entry_message = ''boom'', entry_details = None \<rparr>]) initial_metadata)\<rparr>) =
     ((ProcessingJob_init ''job-1'' ''video-1'' [])
        \<lparr>status := ERROR, job_end_time := Some 7, error_message := Some ''again'',
         error_details := Some ''details'',
         metadata := Some (AList.update ''processing_errors''
           (JErrors [\<lparr> entry_timestamp = 7, entry_stage = ''error'',
                      entry_message = ''boom'', entry_details = None \<rparr>]) initial_metadata)\<rparr>,
      Some (UnboundLocalError ''datetime''))"
    by (simp add: mark_error_def ProcessingJob_init_def initial_metadata_def
          dict_or_empty_def Let_def)
  have c: "map_of (dict_or_empty (metadata (fst (mark_error now msg details
      (j\<lparr>job_end_time := None, metadata := Some initial_metadata\<rparr>))))) ''processing_errors'' =
     Some (JErrors [\<lparr> entry_timestamp = now, entry_stage = ''error'',
                      entry_message = msg, entry_details = details \<rparr>])"
    by (simp add: mark_error_def initial_metadata_def dict_or_empty_def Let_def)
  have d: "mark_error now msg details (j\<lparr>job_end_time := Some t\<rparr>) =
     (j\<lparr>job_end_time := Some t, status := ERROR, error_message := Some msg,
        error_details := details,
        metadata := Some (if map_of (dict_or_empty (metadata j)) ''processing_errors'' = None
                          then AList.update ''processing_errors'' (JErrors [])
                                 (dict_or_empty (metadata j))
                          else dict_or_empty (metadata j))\<rparr>,
      Some (case map_of (dict_or_empty (metadata j)) ''processing_errors'' of
              None \<Rightarrow> UnboundLocalError ''datetime''
            | Some (JErrors es) \<Rightarrow> UnboundLocalError ''datetime''
            | Some other \<Rightarrow> AttributeError ''append''))"
    by (simp add: mark_error_def Let_def update_conv' split: option.splits json.splits)
  show ?thesis
    using a b c d by simp
qed


section \<open>Chapter generation: retry and fallback\<close>

text \<open>
  Claim C2, as stated, fails on the code: with three raising attempts
  \<^verbatim>\<open>generate_chapters\<close> returns no chapter list, the exception propagates.
\<close>

theorem generate_chapters_all_raise_counterexample:
  "generate_chapters None always_raises 3600 15 30 = Inl (AdapterError ''generation failed'')"
  by (simp add: generate_chapters_def generate_with_retry_def retry_loop.simps always_raises_def)

text \<open>
  Claim C2, amended. If each of the three generation attempts raises,
  \<^verbatim>\<open>generate_chapters\<close> returns no chapter list: the exception of the
  third attempt propagates to the caller.
\<close>

theorem generate_chapters_all_raise_propagates:
  assumes "gen 0 = Raised e0" and "gen 1 = Raised e1" and "gen 2 = Raised e2"
  shows "generate_chapters None gen video_duration max_chapters min_chapter_length = Inl e2"
  using assms
  by (simp add: generate_chapters_def generate_with_retry_def retry_loop.simps numeral_2_eq_2)

theorem generate_chapters_all_raise_propagates_witness:
  "always_raises 0 = Raised (AdapterError ''generation failed'') \<and>
   always_raises 1 = Raised (AdapterError ''generation failed'') \<and>
   always_raises 2 = Raised (AdapterError ''generation failed'') \<and>
   generate_chapters None always_raises 1800 15 30 = Inl (AdapterError ''generation failed'')"
  using generate_chapters_all_raise_propagates
    [of always_raises "AdapterError ''generation failed''" "AdapterError ''generation failed''"
        "AdapterError ''generation failed''" 1800 15 30]
  by (simp add: always_raises_def)

text \<open>
  Claim C5, as stated, fails on the code: with the default
  \<^verbatim>\<open>max_chapters\<close> of 15 and three attempts that parse no candidate, the
  engine synthesizes 15 fallback chapters, not 5.
\<close>

theorem fallback_count_counterexample:
  "generate_with_retry no_candidates 15 30 = Inr (create_fallback_chapters 15 30) \<and>
   length (create_fallback_chapters 15 30) = 15 \<and>
   length (create_fallback_chapters 15 30) \<noteq> 5"
  by (simp add: generate_with_retry_def retry_loop.simps no_candidates_def
        create_fallback_chapters_def)

text \<open>
  Claim C5, amended. When all three attempts complete without raising and
  none yields a candidate, \<^verbatim>\<open>_generate_with_retry\<close> synthesizes
  \<^verbatim>\<open>max_chapters\<close> fallback chapters: 15 when \<^verbatim>\<open>generate_chapters\<close> is
  called with its default, none when \<open>max_chapters \<le> 0\<close>. Chapter \<open>i\<close>
  (0-based) starts at \<open>i \<cdot> min_chapter_length\<close>, is titled "Chapter i+1" and
  has confidence 0.5. When \<open>max_chapters \<le> 0\<close>, \<^verbatim>\<open>generate_chapters\<close> hands
  the empty list to the validator and returns the validator's own five
  fallback chapters, which have the same form.
\<close>

theorem fallback_when_no_candidates:
  assumes "gen 0 = Parsed []" and "gen 1 = Parsed []" and "gen 2 = Parsed []"
  shows "generate_with_retry gen max_chapters m = Inr (create_fallback_chapters max_chapters m) \<and>
         length (create_fallback_chapters max_chapters m) = nat max_chapters \<and>
         (\<forall>i < nat max_chapters.
            create_fallback_chapters max_chapters m ! i =
              \<lparr> start_time = real i * m, title = ''Chapter '' @ str_nat (Suc i),
                confidence = 0.5 \<rparr>) \<and>
         generate_with_retry gen default_max_chapters m =
           Inr (create_fallback_chapters default_max_chapters m) \<and>
         length (create_fallback_chapters default_max_chapters m) = 15 \<and>
         (max_chapters \<le> 0 \<longrightarrow>
            create_fallback_chapters max_chapters m = [] \<and>
            generate_chapters None gen video_duration max_chapters m =
              Inr (create_fallback_chapters 5 m) \<and>
            length (create_fallback_chapters 5 m) = 5 \<and>
            (\<forall>i < 5.
               create_fallback_chapters 5 m ! i =
                 \<lparr> start_time = real i * m, title = ''Chapter '' @ str_nat (Suc i),
                   confidence = 0.5 \<rparr>))"
proof -
  have r: "generate_with_retry gen n m = Inr (create_fallback_chapters n m)" for n
    using assms
    by (simp add: generate_with_retry_def retry_loop.simps numeral_2_eq_2 numeral_3_eq_3)
  have l: "length (create_fallback_chapters n m) = nat n" for n
    by (simp add: create_fallback_chapters_def)
  have e: "i < nat n \<Longrightarrow> create_fallback_chapters n m ! i =
        \<lparr> start_time = real i * m, title = ''Chapter '' @ str_nat (Suc i),
          confidence = 0.5 \<rparr>" for i n
    by (simp add: create_fallback_chapters_def)
  have z: "max_chapters \<le> 0 \<Longrightarrow> create_fallback_chapters max_chapters m = []"
    by (simp add: create_fallback_chapters_def)
  have g: "max_chapters \<le> 0 \<Longrightarrow>
        generate_chapters None gen video_duration max_chapters m =
          Inr (create_fallback_chapters 5 m)"
    using r [of max_chapters] z
    by (simp add: generate_chapters_def validate_and_process_chapters_def)
  show ?thesis
    using r [of max_chapters] r [of default_max_chapters] l [of max_chapters]
      l [of default_max_chapters] l [of 5] e [of _ max_chapters] e [of _ 5] z g
    by (simp add: default_max_chapters_def)
qed

theorem fallback_when_no_candidates_witness:
  "no_candidates 0 = Parsed [] \<and> no_candidates 1 = Parsed [] \<and> no_candidates 2 = Parsed [] \<and>
   generate_with_retry no_candidates 15 30 = Inr (create_fallback_chapters 15 30) \<and>
   length (create_fallback_chapters 15 30) = 15 \<and>
   create_fallback_chapters 15 30 ! 14 =
     \<lparr> start_time = 420, title = ''Chapter 15'', confidence = 0.5 \<rparr> \<and>
   create_fallback_chapters 0 30 = [] \<and>
   generate_chapters None no_candidates 3600 0 30 = Inr (create_fallback_chapters 5 30) \<and>
   length (create_fallback_chapters 5 30) = 5 \<and>
   create_fallback_chapters 5 30 ! 4 =
     \<lparr> start_time = 120, title = ''Chapter 5'', confidence = 0.5 \<rparr>"
proof -
  have h: "no_candidates 0 = Parsed []" "no_candidates 1 = Parsed []"
    "no_candidates 2 = Parsed []"
    by (simp_all add: no_candidates_def)
  have a: "create_fallback_chapters 15 30 ! 14 =
      \<lparr> start_time = real 14 * 30, title = ''Chapter '' @ str_nat (Suc 14), confidence = 0.5 \<rparr>"
    using fallback_when_no_candidates [OF h, of 15 30 3600] by simp
  have b: "create_fallback_chapters 5 30 ! 4 =
      \<lparr> start_time = real 4 * 30, title = ''Chapter '' @ str_nat (Suc 4), confidence = 0.5 \<rparr>"
    using fallback_when_no_candidates [OF h, of 0 30 3600] by simp
  have s: "str_nat (Suc 14) = ''15''" "str_nat (Suc 4) = ''5''"
    by (simp_all add: str_nat.simps digit_char_def)
  show ?thesis
    using h a b s fallback_when_no_candidates [OF h, of 15 30 3600]
      fallback_when_no_candidates [OF h, of 0 30 3600]
    by simp
qed


section \<open>Chapter validation and merge\<close>

lemma merge_loop_spec:
  "filtered \<noteq> [] \<Longrightarrow>
   merge_loop m filtered (enumerate (Suc k) rest) =
     Inr (rev (foldl (spec_merge_step m) (rev filtered) rest))"
proof (induction rest arbitrary: filtered k)
  case Nil
  then show ?case by simp
next
  case (Cons c rest)
  from Cons.prems obtain ks l where f: "filtered = ks @ [l]"
    by (metis append_butlast_last_id)
  show ?case
    using Cons.IH [of "filtered @ [c]" "Suc k"] Cons.IH [of "ks @ [c]" "Suc k"]
      Cons.IH [of "filtered" "Suc k"]
    by (simp add: f py_last_def)
qed

lemma merge_close_spec: "merge_close_chapters m cs = Inr (spec_merge m cs)"
proof (cases cs)
  case Nil
  then show ?thesis by (simp add: merge_close_chapters_def spec_merge_def)
next
  case (Cons c rest)
  then show ?thesis
    using merge_loop_spec [of "[c]" m 0 rest]
    by (simp add: merge_close_chapters_def spec_merge_def)
qed

lemma step_subseq:
  "subseq (rev acc) pre \<Longrightarrow> subseq (rev (spec_merge_step m acc c)) (pre @ [c])"
proof (cases acc)
  case Nil
  then show ?thesis by (simp add: list_emb_append2)
next
  case (Cons k ks)
  assume a: "subseq (rev acc) pre"
  have b: "subseq (rev ks) pre"
    using a Cons by (metis rev.simps(2) subseq_order.order_trans list_emb_prefix subseq_order.order_refl)
  have c1: "subseq (rev acc @ [c]) (pre @ [c])"
    using a by (intro list_emb_append_mono) simp_all
  have c2: "subseq (rev ks @ [c]) (pre @ [c])"
    using b by (intro list_emb_append_mono) simp_all
  have c3: "subseq (rev acc) (pre @ [c])"
    using a by (rule list_emb_prefix)
  show ?thesis
    using c1 c2 c3 Cons by simp
qed

lemma fold_subseq:
  "subseq (rev acc) pre \<Longrightarrow> subseq (rev (foldl (spec_merge_step m) acc cs)) (pre @ cs)"
proof (induction cs arbitrary: acc pre)
  case Nil
  then show ?case by simp
next
  case (Cons c cs)
  show ?case
    using Cons.IH [OF step_subseq [OF Cons.prems, of m c]] by simp
qed

lemma spec_merge_subseq: "subseq (spec_merge m cs) cs"
  using fold_subseq [of "[]" "[]" m cs] by (simp add: spec_merge_def)

lemma sorted_wrt_subseq_own: "subseq ys xs \<Longrightarrow> sorted_wrt P xs \<Longrightarrow> sorted_wrt P ys"
  by (induction rule: list_emb.induct) (auto dest: list_emb_set)

lemma sorted_subseq:
  "subseq ys xs \<Longrightarrow> sorted (map start_time xs) \<Longrightarrow> sorted (map start_time ys)"
  by (simp add: sorted_map sorted_wrt_subseq_own)

lemma spec_merge_nonempty: "cs \<noteq> [] \<Longrightarrow> spec_merge m cs \<noteq> []"
proof -
  have "acc \<noteq> [] \<Longrightarrow> foldl (spec_merge_step m) acc xs \<noteq> []" for acc xs
  proof (induction xs arbitrary: acc)
    case Nil then show ?case by simp
  next
    case (Cons x xs)
    have "spec_merge_step m acc x \<noteq> []" using Cons.prems by (cases acc) auto
    then show ?case using Cons.IH by simp
  qed
  moreover assume "cs \<noteq> []"
  ultimately show ?thesis
    by (cases cs) (simp_all add: spec_merge_def)
qed

lemma cap_sorted: "sorted (map start_time xs) \<Longrightarrow> sorted (map start_time (cap_chapters xs))"
  by (simp add: cap_chapters_def)

lemma cap_length: "length (cap_chapters xs) \<le> 15"
  by (simp add: cap_chapters_def)

lemma fallback_sorted: "0 \<le> m \<Longrightarrow> sorted (map start_time (create_fallback_chapters n m))"
  by (auto simp: create_fallback_chapters_def sorted_map sorted_wrt_iff_nth_less mult_right_mono)

text \<open>
  What the validator does guarantee: it never raises, its output is sorted
  ascending by start time and has at most 15 chapters, for every non-empty
  candidate list, and for the empty one when the minimum length is not
  negative.
\<close>

lemma validate_sorted_capped:
  assumes "chapters \<noteq> [] \<or> 0 \<le> m"
  shows "\<exists>out. validate_and_process_chapters chapters dur m = Inr out \<and>
           sorted (map start_time out) \<and> length out \<le> 15"
proof (cases "chapters = []")
  case True
  have "length (create_fallback_chapters 5 m) = 5"
    by (simp add: create_fallback_chapters_def)
  then show ?thesis using True assms
    by (simp add: validate_and_process_chapters_def fallback_sorted)
next
  case False
  then obtain first others where so: "sort_key start_time chapters = first # others"
    by (metis length_0_conv length_sort neq_Nil_conv)
  have s: "sorted (map start_time (first # others))"
    using sorted_sort_key [of start_time chapters] so by simp
  define wi where "wi = (if start_time first > 0 then introduction # first # others else first # others)"
  have swi: "sorted (map start_time wi)"
    using s by (auto simp: wi_def introduction_def)
  define ir where "ir = filter (\<lambda>ch. start_time ch < dur) wi"
  have sir: "sorted (map start_time ir)"
    using swi by (simp add: ir_def sorted_filter)
  have sm: "sorted (map start_time (spec_merge m ir))"
    using sorted_subseq [OF spec_merge_subseq sir] .
  show ?thesis
    using False so sm cap_sorted [OF sm] cap_length [of "spec_merge m ir"]
    by (simp add: validate_and_process_chapters_def merge_close_spec wi_def ir_def Let_def)
qed

text \<open>
  Claim C3, evaluated on the code. For the candidates (0, "Intro", 0.5) and
  (10, "Topic", 0.9), video duration 3600 and minimum chapter length 30, the
  merge replaces the chapter at 0 by the closer, more confident one: the
  validated list is the single chapter starting at 10, so its first chapter
  does not start at 0.
\<close>

theorem validate_first_chapter_not_at_zero:
  "validate_and_process_chapters close_pair 3600 30 =
     Inr [\<lparr> start_time = 10, title = ''Topic'', confidence = 0.9 \<rparr>]"
  by (simp add: validate_and_process_chapters_def close_pair_def merge_close_chapters_def
        enumerate_eq_zip py_last_def cap_chapters_def upt_rec)

lemma foldl_const_id: "f t = t \<Longrightarrow> foldl (\<lambda>acc i. f acc) t xs = t"
  by (induction xs) simp_all

lemma save_chapters_stable:
  "update_order vid (map (chapter_row vid chapters) [0..<length chapters]) =
     map (chapter_row vid chapters) [0..<length chapters] \<Longrightarrow>
   save_chapters chapters vid [] =
     (map (chapter_row vid chapters) [0..<length chapters],
      map (chapter_row vid chapters) [0..<length chapters])"
  by (simp add: save_chapters_def foldl_const_id Let_def)

lemma scenario_validate:
  "validate_and_process_chapters scenario_candidates 3600 30 = Inr scenario_validated"
  by (simp add: validate_and_process_chapters_def scenario_candidates_def scenario_validated_def
        merge_close_chapters_def enumerate_eq_zip py_last_def cap_chapters_def upt_rec)

lemma scenario_rows_built:
  "map (chapter_row ''video-1'' scenario_validated) [0..<length scenario_validated] =
     scenario_rows"
  by (simp add: chapter_row_def scenario_validated_def scenario_rows_def upt_rec)

lemma scenario_rows_ranked: "update_order ''video-1'' scenario_rows = scenario_rows"
  by (simp add: update_order_def scenario_rows_def enumerate_eq_zip upt_rec)

lemma scenario_saved:
  "save_chapters scenario_validated ''video-1'' [] = (scenario_rows, scenario_rows)"
  using save_chapters_stable [of "''video-1''" scenario_validated]
  by (simp only: scenario_rows_built scenario_rows_ranked)

text \<open>
  Claim C4. The merge loop of the validator never raises and computes
  exactly the merge pass as described (first candidate kept; later ones
  kept, replacing, or discarded by gap and strict confidence comparison),
  for every candidate list. In the scenario (duration 3600, minimum length
  30) the validator yields the chapters at 0, 320 and 2700, and saving them
  for a video without chapters gives (0, "Intro", end 320),
  (320, "Body2", end 2700), (2700, "Wrap", no end), in orders 1, 2, 3.
\<close>

theorem merge_pass_as_described:
  "merge_close_chapters m cs = Inr (spec_merge m cs) \<and>
   validate_and_process_chapters scenario_candidates 3600 30 = Inr scenario_validated \<and>
   map start_time scenario_validated = [0, 320, 2700] \<and>
   map (\<lambda>c. (ch_start_time c, ch_title c, ch_end_time c, ch_order c))
     (snd (save_chapters scenario_validated ''video-1'' [])) =
     [(0, ''Intro'', Some 320, 1), (320, ''Body2'', Some 2700, 2), (2700, ''Wrap'', None, 3)]"
proof -
  have a: "map start_time scenario_validated = [0, 320, 2700]"
    by (simp add: scenario_validated_def)
  have b: "map (\<lambda>c. (ch_start_time c, ch_title c, ch_end_time c, ch_order c)) scenario_rows =
     [(0, ''Intro'', Some 320, 1), (320, ''Body2'', Some 2700, 2), (2700, ''Wrap'', None, 3)]"
    by (simp add: scenario_rows_def)
  show ?thesis
    using merge_close_spec [of m cs] scenario_validate a b
    by (simp add: scenario_saved)
qed


section \<open>Dispatcher\<close>

lemma find_app:
  "find P (xs @ ys) = (case find P xs of None \<Rightarrow> find P ys | Some x \<Rightarrow> Some x)"
  by (induction xs) simp_all

lemma find_replaced:
  "find (\<lambda>x. job_id x = job_id j) xs \<noteq> None \<Longrightarrow>
   find (\<lambda>x. job_id x = job_id j) (map (\<lambda>x. if job_id x = job_id j then j else x) xs) = Some j"
  by (induction xs) auto

lemma get_after_save: "ProcessingJob_get_by_id (job_id j) (save_job j d) = Some j"
  by (auto simp: ProcessingJob_get_by_id_def save_job_def find_replaced find_app
      split: option.splits)

lemma get_by_id_job_id: "ProcessingJob_get_by_id jid d = Some j \<Longrightarrow> job_id j = jid"
  by (auto simp: ProcessingJob_get_by_id_def find_Some_iff)

lemma getattr_PROCESSING:
  "ProcessingStage_getattr ''PROCESSING'' = Inl (AttributeError ''PROCESSING'')"
  by (simp add: ProcessingStage_getattr_def ProcessingStage_members_def)

lemma task_body_raises:
  "ProcessingJob_get_by_id jid d = Some job \<Longrightarrow>
   task_body proc vid jid d = (d, Some job, [], Inl (AttributeError ''PROCESSING''))"
  by (simp add: task_body_def getattr_PROCESSING)

lemma task_steps:
  "ProcessingJob_get_by_id jid d = Some job \<Longrightarrow>
   fst (snd (process_video_task now proc vid jid d)) = [ErrorHandlerEntered] \<and>
   (\<exists>e. snd (snd (process_video_task now proc vid jid d)) = Inl e)"
  by (simp add: process_video_task_def task_body_raises split: prod.splits option.splits)

lemma restart_rejected:
  "ProcessingJob_get_by_id jid d = Some job \<Longrightarrow> status job \<noteq> ERROR \<Longrightarrow>
   restart_job now nt jid d = (d, Inl (ValueError ''Can only restart failed jobs''))"
  by (cases "status job") (simp_all add: restart_job_def)

lemma submitted_unchanged:
  "submitted (save_job j d) = submitted d"
  "submitted (set_video_status vid st d) = submitted d"
  "submitted (notify_job_update j d) = submitted d"
  "submitted (submit_task t vid jid d) = submitted d @ [(t, vid, jid)]"
  by (simp_all add: save_job_def set_video_status_def notify_job_update_def submit_task_def)

lemma get_by_id_after_notify:
  "ProcessingJob_get_by_id jid (notify_job_update j d) = ProcessingJob_get_by_id jid d"
  by (simp add: ProcessingJob_get_by_id_def notify_job_update_def)

lemma reset_job_state_ids:
  "job_id (reset_job_state now job) = job_id job"
  "video_id (reset_job_state now job) = video_id job"
  by (simp_all add: reset_job_state_def)

lemma restart_accepted:
  assumes g: "ProcessingJob_get_by_id jid d = Some job" and e: "status job = ERROR"
  shows "snd (restart_job now nt jid d) =
           Inr [(''job_id'', JStr jid), (''task_id'', JStr nt),
                (''status'', JStr ''restarted''),
                (''message'', JStr ''Job restarted successfully'')] \<and>
         ProcessingJob_get_by_id jid (fst (restart_job now nt jid d)) =
           Some ((reset_job_state now job)\<lparr>task_id := Some nt\<rparr>) \<and>
         submitted (fst (restart_job now nt jid d)) = submitted d @ [(nt, video_id job, jid)]"
proof -
  have i: "job_id job = jid" using g by (rule get_by_id_job_id)
  have k: "job_id ((reset_job_state now job)\<lparr>task_id := Some nt\<rparr>) = jid"
    by (simp add: reset_job_state_ids i)
  have s: "ProcessingJob_get_by_id jid
          (save_job ((reset_job_state now job)\<lparr>task_id := Some nt\<rparr>) d') =
        Some ((reset_job_state now job)\<lparr>task_id := Some nt\<rparr>)" for d'
    using get_after_save [of "(reset_job_state now job)\<lparr>task_id := Some nt\<rparr>" d'] k by simp
  show ?thesis
    using g e i
    by (simp add: restart_job_def Let_def s submitted_unchanged get_by_id_after_notify
          reset_job_state_ids)
qed

lemma stage_progress_reset:
  "stage \<notin> set [COMPLETE, ERROR] \<Longrightarrow>
   map_of initial_stage_progress (stage_value stage) = Some 0"
  by (cases stage) (simp_all add: initial_stage_progress_def ProcessingStage_members_def)

text \<open>
  Claim C1, evaluated on the code. The video "video-1" has the job "job-1"
  in GENERATING\_TRANSCRIPT, the only non-terminal job. A second
  \<^verbatim>\<open>start_processing\<close> for the video does not return that job: the lookup
  of \<^verbatim>\<open>get_active_job_for_video\<close> on the class raises AttributeError, the
  state is unchanged. The same happens for every state in which the video
  exists.
\<close>

theorem start_processing_raises_on_lookup:
  "start_processing ''job-2'' ''task-2'' ''video-1'' None busy_db =
     (busy_db, Inl (AttributeError ''get_active_job_for_video'')) \<and>
   map job_id (get_active_jobs busy_db) = [''job-1''] \<and>
   map video_id (get_active_jobs busy_db) = [''video-1''] \<and>
   start_processing new_job new_task vid options (d\<lparr>videos := v\<lparr>video_ident := vid\<rparr> # videos d\<rparr>) =
     (d\<lparr>videos := v\<lparr>video_ident := vid\<rparr> # videos d\<rparr>,
      Inl (AttributeError ''get_active_job_for_video''))"
  by (simp add: start_processing_def busy_db_def Video_get_by_id_def ProcessingJob_getattr_def
      ProcessingJob_attributes_def get_active_jobs_def ProcessingJob_init_def)

text \<open>
  Claim C9. \<^verbatim>\<open>restart_job\<close> on an existing job whose stage is not ERROR
  fails with the validation error and leaves the whole state unchanged. On a
  job in ERROR it returns normally; the reset it saves has progress 0, no
  error message, no error details, no task handle, no end time, start time
  now, stage UPLOADING and stage progress 0 for every stage other than
  COMPLETE and ERROR; one task is then submitted and its handle stored on
  the reset job.
\<close>

theorem restart_job_only_from_error:
  assumes "ProcessingJob_get_by_id jid d = Some job"
  shows "(status job \<noteq> ERROR \<longrightarrow>
            restart_job now new_task jid d =
              (d, Inl (ValueError ''Can only restart failed jobs''))) \<and>
         (status job = ERROR \<longrightarrow>
            (\<exists>result. snd (restart_job now new_task jid d) = Inr result) \<and>
            ProcessingJob_get_by_id jid (fst (restart_job now new_task jid d)) =
              Some ((reset_job_state now job)\<lparr>task_id := Some new_task\<rparr>) \<and>
            submitted (fst (restart_job now new_task jid d)) =
              submitted d @ [(new_task, video_id job, jid)]) \<and>
         progress (reset_job_state now job) = 0 \<and>
         status (reset_job_state now job) = UPLOADING \<and>
         error_message (reset_job_state now job) = None \<and>
         error_details (reset_job_state now job) = None \<and>
         task_id (reset_job_state now job) = None \<and>
         job_end_time (reset_job_state now job) = None \<and>
         job_start_time (reset_job_state now job) = Some now \<and>
         stage_progress (reset_job_state now job) = Some initial_stage_progress \<and>
         (\<forall>stage. stage \<notin> set [COMPLETE, ERROR] \<longrightarrow>
            map_of initial_stage_progress (stage_value stage) = Some 0)"
proof -
  have a: "status job \<noteq> ERROR \<longrightarrow>
      restart_job now new_task jid d = (d, Inl (ValueError ''Can only restart failed jobs''))"
    using restart_rejected [OF assms] by blast
  have b: "status job = ERROR \<longrightarrow>
      (\<exists>result. snd (restart_job now new_task jid d) = Inr result) \<and>
      ProcessingJob_get_by_id jid (fst (restart_job now new_task jid d)) =
        Some ((reset_job_state now job)\<lparr>task_id := Some new_task\<rparr>) \<and>
      submitted (fst (restart_job now new_task jid d)) =
        submitted d @ [(new_task, video_id job, jid)]"
    using restart_accepted [OF assms] by blast
  have c: "\<forall>stage. stage \<notin> set [COMPLETE, ERROR] \<longrightarrow>
      map_of initial_stage_progress (stage_value stage) = Some 0"
    using stage_progress_reset by blast
  show ?thesis
    using a b c by (simp add: reset_job_state_def)
qed

theorem restart_job_only_from_error_witness:
  "ProcessingJob_get_by_id ''job-1'' busy_db = Some (hd (jobs busy_db)) \<and>
   status (hd (jobs busy_db)) = GENERATING_TRANSCRIPT \<and>
   restart_job 9 ''task-2'' ''job-1'' busy_db =
     (busy_db, Inl (ValueError ''Can only restart failed jobs'')) \<and>
   ProcessingJob_get_by_id ''job-1'' failed_db = Some failed_job \<and>
   status failed_job = ERROR \<and>
   ProcessingJob_get_by_id ''job-1'' (fst (restart_job 9 ''task-2'' ''job-1'' failed_db)) =
     Some ((reset_job_state 9 failed_job)\<lparr>task_id := Some ''task-2''\<rparr>) \<and>
   submitted (fst (restart_job 9 ''task-2'' ''job-1'' failed_db)) =
     [(''task-1'', ''video-1'', ''job-1''), (''task-2'', ''video-1'', ''job-1'')] \<and>
   progress (reset_job_state 9 failed_job) = 0 \<and>
   map_of initial_stage_progress (stage_value FINALIZING) = Some 0"
proof -
  have h1: "ProcessingJob_get_by_id ''job-1'' busy_db = Some (hd (jobs busy_db))"
    by (simp add: ProcessingJob_get_by_id_def busy_db_def ProcessingJob_init_def)
  have s1: "status (hd (jobs busy_db)) = GENERATING_TRANSCRIPT"
    by (simp add: busy_db_def)
  have h2: "ProcessingJob_get_by_id ''job-1'' failed_db = Some failed_job"
    by (simp add: ProcessingJob_get_by_id_def failed_db_def failed_job_def
          ProcessingJob_init_def)
  have s2: "status failed_job = ERROR"
    by (simp add: failed_job_def)
  have v: "video_id failed_job = ''video-1''"
    by (simp add: failed_job_def ProcessingJob_init_def)
  have sb: "submitted failed_db = [(''task-1'', ''video-1'', ''job-1'')]"
    by (simp add: failed_db_def)
  have f: "map_of initial_stage_progress (stage_value FINALIZING) = Some 0"
    by (simp add: initial_stage_progress_def ProcessingStage_members_def)
  show ?thesis
    using h1 s1 h2 s2 v sb f
      restart_job_only_from_error [OF h1, of 9 "''task-2''"]
      restart_job_only_from_error [OF h2, of 9 "''task-2''"]
    by simp
qed

text \<open>
  Claim C10. The enum has exactly the eight members listed, PROCESSING is
  none of them, and the lookup \<^verbatim>\<open>ProcessingStage.PROCESSING\<close> raises
  AttributeError. For every run of \<^verbatim>\<open>process_video_task\<close> on an existing
  job, whatever the processing step would do, the \<^verbatim>\<open>try\<close> block ends with
  that exception before the stage is saved and before the processing step is
  called; the only step taken is the entry into the error handler, and the
  task ends with an exception.
\<close>

theorem process_video_task_never_processes:
  assumes "ProcessingJob_get_by_id jid d = Some job"
  shows "map fst ProcessingStage_members =
           [''UPLOADING'', ''EXTRACTING_AUDIO'', ''GENERATING_TRANSCRIPT'',
            ''ANALYZING_CONTENT'', ''GENERATING_CHAPTERS'', ''FINALIZING'',
            ''COMPLETE'', ''ERROR''] \<and>
         ProcessingStage_getattr ''PROCESSING'' = Inl (AttributeError ''PROCESSING'') \<and>
         task_body proc vid jid d = (d, Some job, [], Inl (AttributeError ''PROCESSING'')) \<and>
         fst (snd (process_video_task now proc vid jid d)) = [ErrorHandlerEntered] \<and>
         ProcessVideoCalled \<notin> set (fst (snd (process_video_task now proc vid jid d))) \<and>
         (\<exists>e. snd (snd (process_video_task now proc vid jid d)) = Inl e)"
proof -
  have m: "map fst ProcessingStage_members =
           [''UPLOADING'', ''EXTRACTING_AUDIO'', ''GENERATING_TRANSCRIPT'',
            ''ANALYZING_CONTENT'', ''GENERATING_CHAPTERS'', ''FINALIZING'',
            ''COMPLETE'', ''ERROR'']"
    by (simp add: ProcessingStage_members_def)
  show ?thesis
    using m getattr_PROCESSING task_body_raises [OF assms, of proc vid]
      task_steps [OF assms, of now proc vid]
    by simp
qed

theorem process_video_task_never_processes_witness:
  "ProcessingJob_get_by_id ''job-1'' busy_db = Some (hd (jobs busy_db)) \<and>
   task_body proc_returns ''video-1'' ''job-1'' busy_db =
     (busy_db, Some (hd (jobs busy_db)), [], Inl (AttributeError ''PROCESSING'')) \<and>
   fst (snd (process_video_task 9 proc_returns ''video-1'' ''job-1'' busy_db)) =
     [ErrorHandlerEntered] \<and>
   snd (snd (process_video_task 9 proc_returns ''video-1'' ''job-1'' busy_db)) =
     Inl (Retry (AttributeError ''PROCESSING''))"
proof -
  have h: "ProcessingJob_get_by_id ''job-1'' busy_db = Some (hd (jobs busy_db))"
    by (simp add: ProcessingJob_get_by_id_def busy_db_def ProcessingJob_init_def)
  have t: "task_body proc_returns ''video-1'' ''job-1'' busy_db =
     (busy_db, Some (hd (jobs busy_db)), [], Inl (AttributeError ''PROCESSING''))"
    by (rule task_body_raises [OF h])
  have j: "hd (jobs busy_db) =
     (ProcessingJob_init ''job-1'' ''video-1'' [])
       \<lparr>status := GENERATING_TRANSCRIPT, progress := 20, task_id := Some ''task-1''\<rparr>"
    by (simp add: busy_db_def)
  have o: "snd (snd (process_video_task 9 proc_returns ''video-1'' ''job-1'' busy_db)) =
     Inl (Retry (AttributeError ''PROCESSING''))"
    by (simp add: process_video_task_def t j mark_error_def
          ProcessingJob_init_def initial_metadata_def dict_or_empty_def Let_def)
  show ?thesis
    using h o process_video_task_never_processes [OF h, of proc_returns "''video-1''" 9]
    by simp
qed

end
